theory Spec2Isabelle
  imports Complex_Main "HOL-Library.Word" "HOL-Library.Sublist"
begin

section \<open>EasyFullControl: data model\<close>

text \<open>
  The C++ type \<^verbatim>\<open>double\<close> is read as \<^typ>\<open>real\<close>. The one operation of the
  modelled code that leaves the finite numbers on finite inputs is the division of a
  zero vector by its zero length, which yields NaN; each place where that happens is a
  branch of its own in the model. Time points and durations are nanosecond counts
  (\<^typ>\<open>int\<close>), as in \<^verbatim>\<open>rmf_traffic::Time\<close> and \<^verbatim>\<open>rmf_traffic::Duration\<close>.
\<close>

type_synonym vec2 = "real \<times> real"
type_synonym vec3 = "real \<times> real \<times> real"

definition vsub :: "vec2 \<Rightarrow> vec2 \<Rightarrow> vec2" where
  "vsub a b = (fst a - fst b, snd a - snd b)"

definition vdot :: "vec2 \<Rightarrow> vec2 \<Rightarrow> real" where
  "vdot a b = fst a * fst b + snd a * snd b"

definition vscale :: "real \<Rightarrow> vec2 \<Rightarrow> vec2" where
  "vscale k a = (k * fst a, k * snd a)"

definition vdiv :: "vec2 \<Rightarrow> real \<Rightarrow> vec2" where
  "vdiv a k = (fst a / k, snd a / k)"

definition vnorm :: "vec2 \<Rightarrow> real" where
  "vnorm a = sqrt (fst a * fst a + snd a * snd a)"

text \<open>\<^verbatim>\<open>position().block<2, 1>(0, 0)\<close>: the x and y of a pose.\<close>

definition xy :: "vec3 \<Rightarrow> vec2" where
  "xy v = (fst v, fst (snd v))"

definition yaw_of :: "vec3 \<Rightarrow> real" where
  "yaw_of v = snd (snd v)"

text \<open>
  \<^verbatim>\<open>rmf_traffic::time::to_seconds\<close> and \<^verbatim>\<open>from_seconds\<close>: a duration cast between
  nanosecond counts and seconds; the cast to the integer count truncates towards zero.
\<close>

definition to_seconds :: "int \<Rightarrow> real" where
  "to_seconds d = real_of_int d / 1000000000"

definition from_seconds :: "real \<Rightarrow> int" where
  "from_seconds x =
     (if 0 \<le> x then \<lfloor>x * 1000000000\<rfloor> else \<lceil>x * 1000000000\<rceil>)"

subsection \<open>The navigation graph and the planner configuration\<close>

record waypoint =
  get_location :: vec2
  get_map_name :: string

record lane =
  entry_waypoint_index :: nat
  exit_waypoint_index :: nat

text \<open>
  The graph is the library's \<^verbatim>\<open>rmf_traffic::agv::Graph\<close>, read through the accessors the
  code calls: \<^verbatim>\<open>num_waypoints\<close>/\<^verbatim>\<open>get_waypoint\<close> and \<^verbatim>\<open>num_lanes\<close>/\<^verbatim>\<open>get_lane\<close> are the
  length of and the index into the two vectors, \<^verbatim>\<open>lanes_from(wp)\<close> is the vector of
  lane ids leaving a waypoint and \<^verbatim>\<open>lane_from(a, b)\<close> the lane from \<open>a\<close> to \<open>b\<close> (its
  index), if the graph has one.
\<close>

record graph =
  g_waypoints :: "waypoint list"
  g_lanes :: "lane list"
  lanes_from :: "nat \<Rightarrow> nat list"
  lane_from :: "nat \<Rightarrow> nat \<Rightarrow> nat option"

definition num_waypoints :: "graph \<Rightarrow> nat" where
  "num_waypoints g = length (g_waypoints g)"

definition num_lanes :: "graph \<Rightarrow> nat" where
  "num_lanes g = length (g_lanes g)"

record vehicle_traits =
  linear_nominal_velocity :: real
  rotational_nominal_velocity :: real

record planner_configuration =
  pc_graph :: graph
  lane_closures :: "nat set"
  pc_vehicle_traits :: vehicle_traits

record nav_params =
  max_merge_waypoint_distance :: real
  max_merge_lane_distance :: real
  min_lane_length :: real
  skip_rotation_commands :: bool

subsection \<open>Plan starts, the itinerary and the robot context\<close>

record plan_start =
  st_time :: int
  st_waypoint :: nat
  st_orientation :: real
  st_location :: "vec2 option"
  st_lane :: "nat option"

text \<open>\<^verbatim>\<open>Plan::Start(now, wp, yaw, p)\<close> and \<^verbatim>\<open>Plan::Start(now, wp, yaw, p, lane)\<close>.\<close>

definition Start :: "int \<Rightarrow> nat \<Rightarrow> real \<Rightarrow> vec2 \<Rightarrow> nat option \<Rightarrow> plan_start" where
  "Start t wp yaw p l =
     \<lparr>st_time = t, st_waypoint = wp, st_orientation = yaw,
      st_location = Some p, st_lane = l\<rparr>"

type_synonym trajectory = "(vec3 \<times> int) list"
type_synonym route = "string \<times> trajectory"

text \<open>
  The itinerary is the schedule participant of the traffic library. The model keeps the
  calls the adapter makes on it, in order: \<^verbatim>\<open>cumulative_delay(plan_id, delay, threshold)\<close>
  and \<^verbatim>\<open>set(plan_id, routes)\<close>; \<^verbatim>\<open>assign_plan_id\<close> hands out a counter.
\<close>

datatype itinerary_call =
    CumulativeDelay nat int int
  | SetItinerary nat "route list"

datatype log_msg =
    PlannerUnavailable
  | WaypointOutsideGraph nat nat
  | InvalidLaneLeavingVertex nat nat nat
  | LaneOutsideGraph nat nat
  | PlannerUnavailableForOverride
  | InvalidPathParameters
  | PlannerMissing
  | NoInitialMap nat

record robot_context =
  planner :: "planner_configuration option"
  location :: "plan_start list"
  itinerary :: "itinerary_call list"
  next_plan_id :: nat
  replan_requests :: nat
  arrival_estimates :: "(nat \<times> int) list"
  logged :: "log_msg list"

definition set_location :: "plan_start list \<Rightarrow> robot_context \<Rightarrow> robot_context" where
  "set_location starts ctx = ctx\<lparr>location := starts\<rparr>"

definition cumulative_delay :: "nat \<Rightarrow> int \<Rightarrow> int \<Rightarrow> robot_context \<Rightarrow> robot_context" where
  "cumulative_delay pid delay thresh ctx =
     ctx\<lparr>itinerary := itinerary ctx @ [CumulativeDelay pid delay thresh]\<rparr>"

definition request_replan :: "robot_context \<Rightarrow> robot_context" where
  "request_replan ctx = ctx\<lparr>replan_requests := Suc (replan_requests ctx)\<rparr>"

definition log_error :: "log_msg \<Rightarrow> robot_context \<Rightarrow> robot_context" where
  "log_error m ctx = ctx\<lparr>logged := logged ctx @ [m]\<rparr>"

text \<open>\<^verbatim>\<open>std::chrono::seconds(1)\<close> in nanoseconds.\<close>

definition delay_thresh :: int where
  "delay_thresh = 1000000000"

text \<open>
  What stops a function before its end: a logged message followed by \<^verbatim>\<open>return\<close>, or a
  C++ exception or undefined operation.
\<close>

datatype fault =
    BadFunctionCall
  | GraphOutOfRange nat
  | WaypointsOutOfBounds nat
  | NaNToInteger

datatype interrupt = Logged log_msg | Raised fault

definition interrupted :: "interrupt \<Rightarrow> robot_context \<Rightarrow> fault + robot_context" where
  "interrupted i ctx = (case i of Logged m \<Rightarrow> Inr (log_error m ctx) | Raised f \<Rightarrow> Inl f)"

text \<open>
  \<^verbatim>\<open>rmf_traffic::agv::compute_plan_starts(graph, map, location, now, max_merge_waypoint_distance,
  max_merge_lane_distance, min_lane_length)\<close> is the library's whole-graph search; the model
  takes it as a parameter.
\<close>

type_synonym plan_starts_fn =
  "graph \<Rightarrow> string \<Rightarrow> vec3 \<Rightarrow> int \<Rightarrow> real \<Rightarrow> real \<Rightarrow> real \<Rightarrow> plan_start list"

section \<open>CommandExecution: the data of a command\<close>

text \<open>
  \<^verbatim>\<open>StubbornOverride\<close> objects live in a store; a \<^verbatim>\<open>ScheduleOverride\<close> refers to one
  weakly, by its address in the store.
\<close>

record schedule_override =
  ov_route :: route
  ov_plan_id :: nat
  ov_stubborn :: nat

text \<open>
  The three lambdas the code stores as \<^verbatim>\<open>arrival_estimator\<close>: that of \<^verbatim>\<open>follow_new_path\<close>,
  which passes the estimate for its target index on to the \<^verbatim>\<open>next_arrival_estimator_\<close>
  it was given (the model keeps the calls), and the two of \<^verbatim>\<open>dock\<close>, one empty and one
  that turns the estimate into a delay of the plan.
\<close>

datatype arrival_estimator = PathEstimator nat | DockEstimator int nat | NoEstimator

record data =
  waypoints :: "nat list"
  lanes :: "nat list"
  final_orientation :: "real option"
  schedule_override :: "schedule_override option"
  d_nav_params :: nav_params
  arrival_estimator :: arrival_estimator

text \<open>The call of the stored estimator; the clock is read once for an update.\<close>

definition call_arrival_estimator ::
  "arrival_estimator \<Rightarrow> int \<Rightarrow> int \<Rightarrow> robot_context \<Rightarrow> robot_context" where
  "call_arrival_estimator e now dt ctx =
     (case e of
        PathEstimator target_index \<Rightarrow>
          ctx\<lparr>arrival_estimates := arrival_estimates ctx @ [(target_index, dt)]\<rparr>
      | DockEstimator expected_arrival plan_id \<Rightarrow>
          cumulative_delay plan_id (now + dt - expected_arrival) delay_thresh ctx
      | NoEstimator \<Rightarrow> ctx)"

subsection \<open>Projection onto a segment\<close>

text \<open>
  The projection of \<open>p\<close> onto the segment from \<open>p0\<close> to \<open>p1\<close>, as both
  \<^verbatim>\<open>update_location\<close> and \<^verbatim>\<open>overridden_update\<close> compute it. With \<open>p0 = p1\<close> the unit
  vector is \<open>0/0\<close>, so the projection and the distance are NaN and neither test
  \<^verbatim>\<open>proj < 0.0 || lane_length < proj\<close> holds.
\<close>

datatype projection = NaNProjection | Outside | Inside real real

definition project :: "vec2 \<Rightarrow> vec2 \<Rightarrow> vec2 \<Rightarrow> projection" where
  "project p p0 p1 =
     (let lane_length = vnorm (vsub p1 p0) in
      if lane_length = 0 then NaNProjection
      else
        let lane_u = vdiv (vsub p1 p0) lane_length;
            proj = vdot (vsub p p0) lane_u
        in if proj < 0 \<or> lane_length < proj then Outside
           else Inside proj (vnorm (vsub (vsub p p0) (vscale proj lane_u))))"

subsection \<open>\<^verbatim>\<open>Data::update_location\<close>\<close>

text \<open>\<^verbatim>\<open>(p - p_wp).norm()\<close> for the waypoint \<open>wp\<close> of the graph.\<close>

definition waypoint_distance :: "graph \<Rightarrow> vec2 \<Rightarrow> nat \<Rightarrow> real" where
  "waypoint_distance g p wp = vnorm (vsub p (get_location (g_waypoints g ! wp)))"

text \<open>The projection of \<open>p\<close> onto the lane \<open>lane_id\<close> of the graph, from the location of
  its entry waypoint to that of its exit waypoint.\<close>

definition lane_projection :: "graph \<Rightarrow> vec2 \<Rightarrow> nat \<Rightarrow> projection" where
  "lane_projection g p lane_id =
     project p
       (get_location (g_waypoints g ! entry_waypoint_index (g_lanes g ! lane_id)))
       (get_location (g_waypoints g ! exit_waypoint_index (g_lanes g ! lane_id)))"

text \<open>The loop over the hinted waypoints (\<^verbatim>\<open>for (std::size_t wp : waypoints)\<close>).\<close>

fun scan_waypoints ::
  "graph \<Rightarrow> real \<Rightarrow> vec2 \<Rightarrow> nat list \<Rightarrow> (nat \<times> real) option
   \<Rightarrow> interrupt + (nat \<times> real) option" where
  "scan_waypoints g mx p [] on_waypoint = Inr on_waypoint"
| "scan_waypoints g mx p (wp # wps) on_waypoint =
     (if num_waypoints g \<le> wp
      then Inl (Logged (WaypointOutsideGraph wp (num_waypoints g)))
      else
        let d = waypoint_distance g p wp
        in scan_waypoints g mx p wps
             (if d \<le> mx \<and> (case on_waypoint of None \<Rightarrow> True | Some (w0, d0) \<Rightarrow> d < d0)
              then Some (wp, d) else on_waypoint))"

text \<open>The loop over \<^verbatim>\<open>graph.lanes_from(wp)\<close> for the waypoint the robot is on.\<close>

fun leaving_starts ::
  "graph \<Rightarrow> nat set \<Rightarrow> int \<Rightarrow> real \<Rightarrow> vec2 \<Rightarrow> nat \<Rightarrow> nat list \<Rightarrow> plan_start list
   \<Rightarrow> interrupt + plan_start list" where
  "leaving_starts g closures now yaw p wp [] starts = Inr starts"
| "leaving_starts g closures now yaw p wp (lane_id # ls) starts =
     (if num_lanes g \<le> lane_id
      then Inl (Logged (InvalidLaneLeavingVertex lane_id wp (num_lanes g)))
      else if lane_id \<in> closures
      then leaving_starts g closures now yaw p wp ls starts
      else leaving_starts g closures now yaw p wp ls
             (starts @ [Start now (exit_waypoint_index (g_lanes g ! lane_id)) yaw p
                          (Some lane_id)]))"

text \<open>
  The loop over the hinted lanes. \<^verbatim>\<open>Graph::get_waypoint\<close> throws for an index the graph
  does not have.
\<close>

fun scan_lanes ::
  "graph \<Rightarrow> nat set \<Rightarrow> real \<Rightarrow> vec2 \<Rightarrow> nat list \<Rightarrow> (nat \<times> real) option
   \<Rightarrow> interrupt + (nat \<times> real) option" where
  "scan_lanes g closures mx p [] on_lane = Inr on_lane"
| "scan_lanes g closures mx p (lane_id # ls) on_lane =
     (if num_lanes g \<le> lane_id
      then Inl (Logged (LaneOutsideGraph lane_id (num_lanes g)))
      else if lane_id \<in> closures
      then scan_lanes g closures mx p ls on_lane
      else
        let l = g_lanes g ! lane_id;
            e = entry_waypoint_index l;
            x = exit_waypoint_index l
        in if num_waypoints g \<le> e then Inl (Raised (GraphOutOfRange e))
           else if num_waypoints g \<le> x then Inl (Raised (GraphOutOfRange x))
           else
             (case lane_projection g p lane_id of
                NaNProjection \<Rightarrow> scan_lanes g closures mx p ls on_lane
              | Outside \<Rightarrow> scan_lanes g closures mx p ls on_lane
              | Inside proj d \<Rightarrow>
                  scan_lanes g closures mx p ls
                    (if d \<le> mx \<and> (case on_lane of None \<Rightarrow> True | Some (l0, d0) \<Rightarrow> d < d0)
                     then Some (lane_id, d) else on_lane)))"

text \<open>The starts pushed when the robot is on a hinted lane (\<^verbatim>\<open>on_lane.has_value()\<close>).\<close>

definition lane_starts :: "graph \<Rightarrow> int \<Rightarrow> real \<Rightarrow> vec2 \<Rightarrow> nat \<Rightarrow> plan_start list" where
  "lane_starts g now yaw p lane_id =
     (let l = g_lanes g ! lane_id;
          wp0 = entry_waypoint_index l;
          wp1 = exit_waypoint_index l
      in Start now wp1 yaw p (Some lane_id) #
         (case lane_from g wp1 wp0 of
            Some reverse_lane \<Rightarrow> [Start now wp0 yaw p (Some reverse_lane)]
          | None \<Rightarrow> []))"

text \<open>The arrival estimate at the end of \<^verbatim>\<open>update_location\<close>.\<close>

definition estimate_arrival ::
  "data \<Rightarrow> planner_configuration \<Rightarrow> vec3 \<Rightarrow> int \<Rightarrow> robot_context \<Rightarrow> robot_context" where
  "estimate_arrival d pl loc now ctx =
     (if waypoints d = [] then ctx
      else
        let p_final = get_location (g_waypoints (pc_graph pl) ! last (waypoints d));
            distance = vnorm (vsub p_final (xy loc));
            rotation = (case final_orientation d of
                          Some fo \<Rightarrow> \<bar>yaw_of loc - fo\<bar>
                        | None \<Rightarrow> 0);
            v = max (linear_nominal_velocity (pc_vehicle_traits pl)) 0.001;
            w = max (rotational_nominal_velocity (pc_vehicle_traits pl)) 0.001;
            t = distance / v + rotation / w
        in call_arrival_estimator (arrival_estimator d) now (from_seconds t) ctx)"

text \<open>
  The three ways of resolving the start set: the hinted waypoints, then the hinted
  lanes, then the whole graph.
\<close>

definition resolve_starts ::
  "plan_starts_fn \<Rightarrow> data \<Rightarrow> planner_configuration \<Rightarrow> string \<Rightarrow> vec3 \<Rightarrow> int
   \<Rightarrow> (nat \<times> real) option \<Rightarrow> interrupt + plan_start list" where
  "resolve_starts cps d pl map_name loc now on_waypoint =
     (let g = pc_graph pl; closures = lane_closures pl; p = xy loc; yaw = yaw_of loc;
          np = d_nav_params d
      in case on_waypoint of
           Some (wp, d0) \<Rightarrow>
             leaving_starts g closures now yaw p wp (lanes_from g wp) [Start now wp yaw p None]
         | None \<Rightarrow>
             (case scan_lanes g closures (max_merge_lane_distance np) p (lanes d) None of
                Inl i \<Rightarrow> Inl i
              | Inr (Some (lane_id, d0)) \<Rightarrow> Inr (lane_starts g now yaw p lane_id)
              | Inr None \<Rightarrow>
                  Inr (cps g map_name loc now (max_merge_waypoint_distance np)
                         (max_merge_lane_distance np) (min_lane_length np))))"

subsection \<open>\<^verbatim>\<open>Data::overridden_update\<close>\<close>

text \<open>
  The loop over the consecutive sample pairs of the trajectory, \<open>i0\<close> the index of the
  first sample of the pair. The distance kept with the segment is \<open>None\<close> when it is
  NaN: a NaN distance is taken when nothing was kept before (\<^verbatim>\<open>!closest_lane.has_value()\<close>)
  and loses every comparison afterwards.
\<close>

fun closest_segment ::
  "vec2 \<Rightarrow> trajectory \<Rightarrow> nat \<Rightarrow> (nat \<times> real option) option \<Rightarrow> (nat \<times> real option) option" where
  "closest_segment p (a # b # rest) i0 closest_lane =
     closest_segment p (b # rest) (Suc i0)
       (case project p (xy (fst a)) (xy (fst b)) of
          Outside \<Rightarrow> closest_lane
        | NaNProjection \<Rightarrow>
            (case closest_lane of None \<Rightarrow> Some (i0, None) | Some c \<Rightarrow> Some c)
        | Inside proj d \<Rightarrow>
            (case closest_lane of
               None \<Rightarrow> Some (i0, Some d)
             | Some (j, None) \<Rightarrow> Some (j, None)
             | Some (j, Some d0) \<Rightarrow> if d < d0 then Some (i0, Some d) else Some (j, Some d0)))"
| "closest_segment p [a] i0 closest_lane = closest_lane"
| "closest_segment p [] i0 closest_lane = closest_lane"

text \<open>The loop over the samples of the trajectory when no segment was kept.\<close>

fun closest_sample :: "vec2 \<Rightarrow> trajectory \<Rightarrow> (int \<times> real) option \<Rightarrow> (int \<times> real) option" where
  "closest_sample p [] closest_time = closest_time"
| "closest_sample p (wp # rest) closest_time =
     (let d = vnorm (vsub p (xy (fst wp)))
      in closest_sample p rest
           (if (case closest_time of None \<Rightarrow> True | Some (t0, d0) \<Rightarrow> d < d0)
            then Some (snd wp, d) else closest_time))"

text \<open>
  The delay written by \<^verbatim>\<open>overridden_update\<close>. For a kept segment of length zero the
  fraction \<open>s\<close> is NaN, and the conversion of a NaN number of seconds to a nanosecond
  count is undefined.
\<close>

definition override_delay ::
  "vec2 \<Rightarrow> int \<Rightarrow> schedule_override \<Rightarrow> robot_context \<Rightarrow> fault + robot_context" where
  "override_delay p now ov ctx =
     (let traj = snd (ov_route ov); plan_id = ov_plan_id ov
      in case closest_segment p traj 0 None of
           Some (i, dist_to_lane) \<Rightarrow>
             (let wp0 = traj ! i; wp1 = traj ! (i + 1);
                  p0 = xy (fst wp0); p1 = xy (fst wp1);
                  lane_length = vnorm (vsub p1 p0)
              in if lane_length = 0 then Inl NaNToInteger
                 else
                   let lane_u = vdiv (vsub p1 p0) lane_length;
                       proj = vdot (vsub p p0) lane_u;
                       s = proj / lane_length;
                       dt = to_seconds (snd wp1 - snd wp0);
                       t_expected = snd wp0 + from_seconds (s * dt);
                       delay = now - t_expected
                   in Inr (cumulative_delay plan_id delay delay_thresh ctx))
         | None \<Rightarrow>
             (case closest_sample p traj None of
                Some (t, d) \<Rightarrow> Inr (cumulative_delay plan_id (now - t) delay_thresh ctx)
              | None \<Rightarrow> Inr ctx))"

definition overridden_update ::
  "plan_starts_fn \<Rightarrow> data \<Rightarrow> string \<Rightarrow> vec3 \<Rightarrow> int \<Rightarrow> schedule_override
   \<Rightarrow> robot_context \<Rightarrow> fault + robot_context" where
  "overridden_update cps d map_name loc now ov ctx =
     (case override_delay (xy loc) now ov ctx of
        Inl f \<Rightarrow> Inl f
      | Inr ctx1 \<Rightarrow>
          (case planner ctx1 of
             None \<Rightarrow> Inr (log_error PlannerUnavailable ctx1)
           | Some pl \<Rightarrow>
               Inr (set_location
                      (cps (pc_graph pl) map_name loc now
                         (max_merge_waypoint_distance (d_nav_params d))
                         (max_merge_lane_distance (d_nav_params d))
                         (min_lane_length (d_nav_params d)))
                      ctx1)))"

definition update_location ::
  "plan_starts_fn \<Rightarrow> data \<Rightarrow> string \<Rightarrow> vec3 \<Rightarrow> int \<Rightarrow> robot_context
   \<Rightarrow> fault + robot_context" where
  "update_location cps d map_name loc now ctx =
     (case schedule_override d of
        Some ov \<Rightarrow> overridden_update cps d map_name loc now ov ctx
      | None \<Rightarrow>
          (case planner ctx of
             None \<Rightarrow> Inr (log_error PlannerUnavailable ctx)
           | Some pl \<Rightarrow>
               (case scan_waypoints (pc_graph pl)
                       (max_merge_waypoint_distance (d_nav_params d)) (xy loc)
                       (waypoints d) None of
                  Inl i \<Rightarrow> interrupted i ctx
                | Inr on_waypoint \<Rightarrow>
                    (case resolve_starts cps d pl map_name loc now on_waypoint of
                       Inl i \<Rightarrow> interrupted i ctx
                     | Inr starts \<Rightarrow>
                         Inr (estimate_arrival d pl loc now (set_location starts ctx))))))"

section \<open>Commands, identifiers, the progress tracker and the worker\<close>

text \<open>
  What a user callback does with the \<^verbatim>\<open>CommandExecution\<close> it is given, while it runs:
  calls of \<^verbatim>\<open>finished()\<close> and of \<^verbatim>\<open>override_schedule(map, path)\<close>.
\<close>

datatype user_call = CallFinished | CallOverrideSchedule string "vec3 list"

text \<open>
  A \<^verbatim>\<open>CommandExecution\<close> in the store, under its number: the shared \<^verbatim>\<open>Data\<close>, the
  \<^verbatim>\<open>update_fn\<close> of its \<^verbatim>\<open>ActivityIdentifier\<close> (\<open>True\<close> while it is not null), the
  \<^verbatim>\<open>begin\<close> callback (\<open>None\<close> for a null \<^verbatim>\<open>std::function\<close>) and the \<^verbatim>\<open>finisher\<close> of the
  copies handed out by \<^verbatim>\<open>ProgressTracker::next\<close>: \<open>None\<close> while null, otherwise the
  tracker its weak pointer refers to.
\<close>

record command =
  cmd_data :: data
  update_fn :: bool
  cmd_begin :: "user_call list option"
  cmd_finisher :: "nat option"

text \<open>
  A \<^verbatim>\<open>StubbornOverride\<close> in the store. \<open>handle_held\<close>: the \<^verbatim>\<open>Stubbornness\<close> returned by
  \<^verbatim>\<open>override_schedule\<close> still refers to it, which is what keeps the object alive once
  the scheduled lambda has run. \<open>stubbornness\<close>: its field holds a token (is not null).
\<close>

record stubborn_override =
  handle_held :: bool
  stubbornness :: bool

text \<open>
  Modelled from the spec: \<^verbatim>\<open>TriggerOnce\<close>, declared outside the given sources, is the
  fire-once completion callback; \<open>tr_finished\<close> is \<open>True\<close> while it has not fired.
\<close>

record tracker =
  tracker_id :: nat
  reverse_queue :: "nat list"
  current_identifier :: "nat option"
  tr_finished :: bool

text \<open>The lambdas scheduled on the worker, with what they capture.\<close>

datatype task =
    FinishTask nat "nat option"
  | OverrideTask nat nat string "vec3 list"
  | UpdatePositionTask string vec3 "nat option"

text \<open>The callbacks invoked, in the order of their invocation.\<close>

datatype callback =
    BeginCalled nat
  | FinisherCalled nat
  | PathFinished nat
  | StopRequested nat

record system =
  robot_ctx :: robot_context
  context_alive :: bool
  fleet_nav_params :: nav_params
  commands :: "command list"
  stubborns :: "stubborn_override list"
  current_progress :: "tracker option"
  next_tracker_id :: nat
  worker :: "task list"
  callbacks :: "callback list"

text \<open>The library functions the code calls: the whole-graph search and
  \<^verbatim>\<open>rmf_traffic::agv::Interpolate::positions(traits, now, path)\<close>.\<close>

record library =
  compute_plan_starts :: plan_starts_fn
  interpolate_positions :: "vehicle_traits \<Rightarrow> int \<Rightarrow> vec3 list \<Rightarrow> trajectory"


definition is_stubborn :: "system \<Rightarrow> bool" where
  "is_stubborn s = list_ex (\<lambda>ob. handle_held ob \<and> stubbornness ob) (stubborns s)"

definition release :: "nat \<Rightarrow> system \<Rightarrow> system" where
  "release h s =
     (if h < length (stubborns s)
      then s\<lparr>stubborns := (stubborns s)[h := (stubborns s ! h)\<lparr>handle_held := False\<rparr>]\<rparr>
      else s)"

subsection \<open>\<^verbatim>\<open>Data::release_stubbornness\<close>\<close>

text \<open>\<^verbatim>\<open>schedule_override->stubborn.lock()\<close> succeeds while the object is alive.\<close>

definition release_stubbornness :: "data \<Rightarrow> stubborn_override list \<Rightarrow> stubborn_override list" where
  "release_stubbornness d st =
     (case schedule_override d of
        None \<Rightarrow> st
      | Some ov \<Rightarrow>
          if ov_stubborn ov < length st \<and> handle_held (st ! ov_stubborn ov)
          then st[ov_stubborn ov := (st ! ov_stubborn ov)\<lparr>stubbornness := False\<rparr>]
          else st)"

subsection \<open>The calls a user makes on a \<^verbatim>\<open>CommandExecution\<close>\<close>

text \<open>\<^verbatim>\<open>Implementation::finish\<close>, up to the scheduling of the lambda.\<close>

definition finished :: "nat \<Rightarrow> system \<Rightarrow> system" where
  "finished c s =
     (if context_alive s
      then s\<lparr>worker := worker s @ [FinishTask c (cmd_finisher (commands s ! c))]\<rparr>
      else s)"

text \<open>
  \<^verbatim>\<open>Implementation::override_schedule\<close>, up to the scheduling of the lambda: the new
  \<^verbatim>\<open>StubbornOverride\<close> is made first and is what the returned handle refers to.
\<close>

definition override_schedule :: "nat \<Rightarrow> string \<Rightarrow> vec3 list \<Rightarrow> system \<Rightarrow> system" where
  "override_schedule c map_name path s =
     (let stubborn = length (stubborns s);
          s1 = s\<lparr>stubborns := stubborns s @ [\<lparr>handle_held = True, stubbornness = False\<rparr>]\<rparr>
      in if context_alive s
         then s1\<lparr>worker := worker s1 @ [OverrideTask c stubborn map_name path]\<rparr>
         else s1)"

fun user_calls :: "nat \<Rightarrow> user_call list \<Rightarrow> system \<Rightarrow> system" where
  "user_calls c [] s = s"
| "user_calls c (CallFinished # rest) s = user_calls c rest (finished c s)"
| "user_calls c (CallOverrideSchedule map_name path # rest) s =
     user_calls c rest (override_schedule c map_name path s)"

subsection \<open>\<^verbatim>\<open>ProgressTracker\<close>\<close>

definition trigger :: "tracker \<Rightarrow> system \<Rightarrow> system" where
  "trigger tr s =
     (if tr_finished tr
      then s\<lparr>current_progress := Some (tr\<lparr>tr_finished := False\<rparr>),
              callbacks := callbacks s @ [PathFinished (tracker_id tr)]\<rparr>
      else s\<lparr>current_progress := Some tr\<rparr>)"

text \<open>\<^verbatim>\<open>ProgressTracker::next\<close> on the tracker \<open>tr\<close>, which is the current one.\<close>

definition tracker_next :: "tracker \<Rightarrow> system \<Rightarrow> system" where
  "tracker_next tr s =
     (if reverse_queue tr = []
      then trigger (tr\<lparr>current_identifier := None\<rparr>) s
      else
        let c = last (reverse_queue tr);
            tr1 = tr\<lparr>reverse_queue := butlast (reverse_queue tr),
                     current_identifier := Some c\<rparr>;
            s1 = s\<lparr>current_progress := Some tr1,
                    commands := (commands s)
                      [c := (commands s ! c)\<lparr>cmd_finisher := Some (tracker_id tr)\<rparr>]\<rparr>
        in case cmd_begin (commands s ! c) of
             None \<Rightarrow> s1
           | Some calls \<Rightarrow>
               user_calls c calls (s1\<lparr>callbacks := callbacks s1 @ [BeginCalled c]\<rparr>))"

text \<open>
  The finisher set by \<^verbatim>\<open>next\<close>: \<^verbatim>\<open>w_progress.lock()\<close> succeeds while the tracker it was
  made for is still the one held by \<^verbatim>\<open>current_progress\<close>.
\<close>

definition call_finisher :: "nat \<Rightarrow> system \<Rightarrow> system" where
  "call_finisher tid s =
     (case current_progress s of
        None \<Rightarrow> s
      | Some tr \<Rightarrow> if tracker_id tr = tid then tracker_next tr s else s)"

text \<open>\<^verbatim>\<open>ProgressTracker::make\<close>.\<close>

definition make_tracker :: "nat \<Rightarrow> nat list \<Rightarrow> tracker" where
  "make_tracker tid queue =
     \<lparr>tracker_id = tid, reverse_queue = rev queue, current_identifier = None,
      tr_finished = True\<rparr>"

text \<open>\<^verbatim>\<open>CommandExecution::Implementation::make\<close>: the update function is set and the
  finisher is null.\<close>

definition make_command :: "data \<Rightarrow> user_call list option \<Rightarrow> command" where
  "make_command d b = \<lparr>cmd_data = d, update_fn = True, cmd_begin = b, cmd_finisher = None\<rparr>"

text \<open>
  The end of \<^verbatim>\<open>follow_new_path\<close> and of \<^verbatim>\<open>dock\<close>: the commands made are handed to a new
  tracker, which replaces the current one, and \<^verbatim>\<open>next\<close> is called on it.
\<close>

definition start_progress :: "command list \<Rightarrow> system \<Rightarrow> system" where
  "start_progress queue s =
     (let first = length (commands s);
          tr = make_tracker (next_tracker_id s) [first ..< first + length queue];
          s1 = s\<lparr>commands := commands s @ queue,
                  next_tracker_id := Suc (next_tracker_id s)\<rparr>
      in tracker_next tr s1)"

subsection \<open>The lambdas run by the worker\<close>

text \<open>The lambda scheduled by \<^verbatim>\<open>finish\<close>.\<close>

definition finish_task :: "nat \<Rightarrow> nat option \<Rightarrow> system \<Rightarrow> fault + system" where
  "finish_task c fin s =
     (if \<not> update_fn (commands s ! c) then Inr s
      else
        let s1 = s\<lparr>commands := (commands s)[c := (commands s ! c)\<lparr>update_fn := False\<rparr>]\<rparr>;
            d = cmd_data (commands s1 ! c)
        in if schedule_override d \<noteq> None
           then Inr (s1\<lparr>stubborns := release_stubbornness d (stubborns s1),
                        robot_ctx := request_replan (robot_ctx s1)\<rparr>)
           else
             (case fin of
                None \<Rightarrow> Inl BadFunctionCall
              | Some tid \<Rightarrow>
                  Inr (call_finisher tid (s1\<lparr>callbacks := callbacks s1 @ [FinisherCalled c]\<rparr>))))"

text \<open>The lambda scheduled by \<^verbatim>\<open>override_schedule\<close>.\<close>

definition override_task ::
  "library \<Rightarrow> int \<Rightarrow> nat \<Rightarrow> nat \<Rightarrow> string \<Rightarrow> vec3 list \<Rightarrow> system \<Rightarrow> system" where
  "override_task lib now c stubborn map_name path s =
     (if \<not> update_fn (commands s ! c) then s
      else
        case planner (robot_ctx s) of
          None \<Rightarrow> s\<lparr>robot_ctx := log_error PlannerUnavailableForOverride (robot_ctx s)\<rparr>
        | Some pl \<Rightarrow>
            let d = cmd_data (commands s ! c);
                st1 = release_stubbornness d (stubborns s);
                trajectory = interpolate_positions lib (pc_vehicle_traits pl) now path;
                route = (map_name, trajectory);
                plan_id = next_plan_id (robot_ctx s);
                ctx1 = (robot_ctx s)\<lparr>next_plan_id := Suc plan_id,
                                    itinerary := itinerary (robot_ctx s) @
                                                   [SetItinerary plan_id [route]]\<rparr>;
                d1 = d\<lparr>schedule_override :=
                         Some \<lparr>ov_route = route, ov_plan_id = plan_id,
                               ov_stubborn = stubborn\<rparr>\<rparr>
            in s\<lparr>robot_ctx := ctx1,
                 commands := (commands s)[c := (commands s ! c)\<lparr>cmd_data := d1\<rparr>],
                 stubborns := st1[stubborn := (st1 ! stubborn)\<lparr>stubbornness := True\<rparr>]\<rparr>)"

text \<open>
  The \<^verbatim>\<open>update_fn\<close> made by \<^verbatim>\<open>CommandExecution::Implementation::make\<close>, and the call of
  an \<^verbatim>\<open>update_fn\<close>: calling a null \<^verbatim>\<open>std::function\<close> throws \<^verbatim>\<open>std::bad_function_call\<close>.
\<close>

definition call_update_fn ::
  "library \<Rightarrow> int \<Rightarrow> nat \<Rightarrow> string \<Rightarrow> vec3 \<Rightarrow> system \<Rightarrow> fault + system" where
  "call_update_fn lib now c map_name position s =
     (if \<not> update_fn (commands s ! c) then Inl BadFunctionCall
      else if \<not> context_alive s then Inr s
      else
        case update_location (compute_plan_starts lib) (cmd_data (commands s ! c))
               map_name position now (robot_ctx s) of
          Inl f \<Rightarrow> Inl f
        | Inr ctx1 \<Rightarrow> Inr (s\<lparr>robot_ctx := ctx1\<rparr>))"

text \<open>The lambda scheduled by \<^verbatim>\<open>EasyRobotUpdateHandle::update_position\<close>.\<close>

definition update_position_task ::
  "library \<Rightarrow> int \<Rightarrow> string \<Rightarrow> vec3 \<Rightarrow> nat option \<Rightarrow> system \<Rightarrow> fault + system" where
  "update_position_task lib now map_name position current_activity s =
     (case current_activity of
        Some c \<Rightarrow> call_update_fn lib now c map_name position s
      | None \<Rightarrow>
          (case planner (robot_ctx s) of
             None \<Rightarrow> Inr (s\<lparr>robot_ctx := log_error PlannerUnavailable (robot_ctx s)\<rparr>)
           | Some pl \<Rightarrow>
               let nav_params = fleet_nav_params s;
                   starts = compute_plan_starts lib (pc_graph pl) map_name position now
                              (max_merge_waypoint_distance nav_params)
                              (max_merge_lane_distance nav_params)
                              (min_lane_length nav_params)
               in Inr s))"

definition exec_task :: "library \<Rightarrow> int \<Rightarrow> task \<Rightarrow> system \<Rightarrow> fault + system" where
  "exec_task lib now t s =
     (case t of
        FinishTask c fin \<Rightarrow> finish_task c fin s
      | OverrideTask c stubborn map_name path \<Rightarrow>
          Inr (override_task lib now c stubborn map_name path s)
      | UpdatePositionTask map_name position current_activity \<Rightarrow>
          update_position_task lib now map_name position current_activity s)"

text \<open>The worker runs the lambdas in the order of their scheduling, one at a time.\<close>

definition worker_step :: "library \<Rightarrow> int \<Rightarrow> system \<Rightarrow> fault + system" where
  "worker_step lib now s =
     (case worker s of
        [] \<Rightarrow> Inr s
      | t # rest \<Rightarrow> exec_task lib now t (s\<lparr>worker := rest\<rparr>))"

subsection \<open>\<^verbatim>\<open>EasyRobotUpdateHandle::update_position\<close> and \<^verbatim>\<open>EasyCommandHandle::stop\<close>\<close>

definition update_position :: "string \<Rightarrow> vec3 \<Rightarrow> nat option \<Rightarrow> system \<Rightarrow> system" where
  "update_position map_name position current_activity s =
     s\<lparr>worker := worker s @ [UpdatePositionTask map_name position current_activity]\<rparr>"

definition stop :: "system \<Rightarrow> system" where
  "stop s =
     (case current_progress s of
        None \<Rightarrow> s
      | Some tr \<Rightarrow>
          (case current_identifier tr of
             None \<Rightarrow> s
           | Some c \<Rightarrow>
               s\<lparr>commands := (commands s)[c := (commands s ! c)\<lparr>update_fn := False\<rparr>],
                 current_progress := None,
                 callbacks := callbacks s @ [StopRequested c]\<rparr>))"

subsection \<open>Runs of the system\<close>

text \<open>
  What happens to a robot, one event at a time: a call made by the integrator on a
  command it was given, on a handle or on the update handle, a stop request, or the
  worker running its next lambda at a clock reading. A command can be called only once
  \<^verbatim>\<open>next\<close> has passed a copy of it to its \<^verbatim>\<open>begin\<close> callback; a call on any other command
  is not an event of the system and leaves the state as it is.
\<close>

datatype event =
    UserFinished nat
  | UserOverrideSchedule nat string "vec3 list"
  | UserRelease nat
  | UserUpdatePosition string vec3 "nat option"
  | StopRequest
  | WorkerRuns int

definition handed :: "nat \<Rightarrow> system \<Rightarrow> bool" where
  "handed c s =
     (c < length (commands s) \<and> cmd_finisher (commands s ! c) \<noteq> None
      \<and> cmd_begin (commands s ! c) \<noteq> None)"

fun step :: "library \<Rightarrow> event \<Rightarrow> system \<Rightarrow> fault + system" where
  "step lib (UserFinished c) s = Inr (if handed c s then finished c s else s)"
| "step lib (UserOverrideSchedule c map_name path) s =
     Inr (if handed c s then override_schedule c map_name path s else s)"
| "step lib (UserRelease h) s = Inr (release h s)"
| "step lib (UserUpdatePosition map_name position current_activity) s =
     Inr (if (case current_activity of None \<Rightarrow> True | Some c \<Rightarrow> handed c s)
          then update_position map_name position current_activity s else s)"
| "step lib StopRequest s = Inr (stop s)"
| "step lib (WorkerRuns now) s = worker_step lib now s"

fun run :: "library \<Rightarrow> event list \<Rightarrow> system \<Rightarrow> fault + system" where
  "run lib [] s = Inr s"
| "run lib (e # es) s =
     (case step lib e s of Inl f \<Rightarrow> Inl f | Inr s1 \<Rightarrow> run lib es s1)"

section \<open>\<^verbatim>\<open>EasyCommandHandle::follow_new_path\<close>\<close>

record plan_waypoint =
  pw_position :: vec3
  pw_graph_index :: "nat option"
  approach_lanes :: "nat list"

record destination =
  dest_map :: string
  dest_position :: vec3
  dest_graph_index :: "nat option"

text \<open>\<^verbatim>\<open>std::size_t\<close> on the 64-bit targets of the adapter.\<close>

type_synonym size_t = "64 word"

text \<open>The search for the initial map. \<^verbatim>\<open>Graph::get_waypoint\<close> and \<^verbatim>\<open>Graph::get_lane\<close>
  throw for an index the graph does not have.\<close>

fun initial_map_of :: "graph \<Rightarrow> plan_waypoint list \<Rightarrow> fault + string option" where
  "initial_map_of g [] = Inr None"
| "initial_map_of g (wp # rest) =
     (case pw_graph_index wp of
        Some i \<Rightarrow>
          if num_waypoints g \<le> i then Inl (GraphOutOfRange i)
          else Inr (Some (get_map_name (g_waypoints g ! i)))
      | None \<Rightarrow> initial_map_of g rest)"

text \<open>The loop that looks for a connection between the plan and the current location;
  \<open>i\<close> is the index of the head of the list.\<close>

fun find_connection ::
  "plan_waypoint list \<Rightarrow> plan_start list \<Rightarrow> nat \<Rightarrow> bool \<times> nat \<Rightarrow> bool \<times> nat" where
  "find_connection [] current_location i acc = acc"
| "find_connection (wp # rest) current_location i acc =
     (let acc1 =
            (case pw_graph_index wp of
               Some gi \<Rightarrow>
                 if list_ex (\<lambda>l. gi = st_waypoint l) current_location then (True, i) else acc
             | None \<Rightarrow> acc);
          acc2 =
            (if 0 < i \<and>
                list_ex (\<lambda>lane. list_ex (\<lambda>l. st_lane l = Some lane) current_location)
                  (approach_lanes wp)
             then (True, i - 1) else acc1)
      in find_connection rest current_location (Suc i) acc2)"

text \<open>The loop over \<^verbatim>\<open>wp1.approach_lanes()\<close> that fills \<^verbatim>\<open>cmd_lanes\<close> and \<^verbatim>\<open>cmd_wps\<close>.\<close>

fun lanes_waypoints ::
  "graph \<Rightarrow> nat list \<Rightarrow> nat list \<times> nat list \<Rightarrow> fault + (nat list \<times> nat list)" where
  "lanes_waypoints g [] acc = Inr acc"
| "lanes_waypoints g (lane_id # rest) acc =
     (if num_lanes g \<le> lane_id then Inl (GraphOutOfRange lane_id)
      else
        let entry_wp = entry_waypoint_index (g_lanes g ! lane_id);
            exit_wp = exit_waypoint_index (g_lanes g ! lane_id);
            w1 = (if entry_wp \<in> set (fst acc) then fst acc else fst acc @ [entry_wp]);
            w2 = (if exit_wp \<in> set w1 then w1 else w1 @ [exit_wp])
        in lanes_waypoints g rest (w2, snd acc @ [lane_id]))"

text \<open>The map of a command: that of \<open>wp1\<close> when it has a graph index.\<close>

definition command_map :: "graph \<Rightarrow> plan_waypoint \<Rightarrow> string \<Rightarrow> fault + string" where
  "command_map g wp1 initial_map =
     (case pw_graph_index wp1 of
        Some gi \<Rightarrow>
          if num_waypoints g \<le> gi then Inl (GraphOutOfRange gi)
          else Inr (get_map_name (g_waypoints g ! gi))
      | None \<Rightarrow> Inr initial_map)"

text \<open>Whether the command to \<open>wp1\<close> also covers the rotation at \<open>i2 = i1 + 1\<close>.\<close>

definition skips_next :: "nav_params \<Rightarrow> plan_waypoint list \<Rightarrow> size_t \<Rightarrow> bool" where
  "skips_next np wps i1 =
     (skip_rotation_commands np \<and> i1 + 1 < word_of_nat (length wps) \<and>
      (case pw_graph_index (wps ! unat i1) of
         None \<Rightarrow> False
       | Some a \<Rightarrow>
           (case pw_graph_index (wps ! unat (i1 + 1)) of
              None \<Rightarrow> False
            | Some b \<Rightarrow> a = b)))"

definition path_command ::
  "nav_params \<Rightarrow> (destination \<Rightarrow> user_call list) \<Rightarrow> plan_waypoint list \<Rightarrow> size_t
   \<Rightarrow> nat list \<Rightarrow> nat list \<Rightarrow> string \<Rightarrow> command" where
  "path_command np handle_nav_request wps i1 cmd_wps cmd_lanes map_name =
     (let target_index = (if skips_next np wps i1 then i1 + 1 else i1);
          target_position = pw_position (wps ! unat target_index)
      in make_command
           \<lparr>waypoints = cmd_wps, lanes = cmd_lanes,
            final_orientation = Some (yaw_of target_position),
            schedule_override = None, d_nav_params = np,
            arrival_estimator = PathEstimator (unat target_index)\<rparr>
           (Some (handle_nav_request
                    \<lparr>dest_map = map_name, dest_position = target_position,
                     dest_graph_index = pw_graph_index (wps ! unat i1)\<rparr>)))"

text \<open>
  The loop \<^verbatim>\<open>for (; i1 < waypoints.size(); ++i0, ++i1)\<close> that makes the commands.
  \<^verbatim>\<open>waypoints[i0]\<close> outside the vector is undefined; \<^verbatim>\<open>waypoints[i1]\<close> and
  \<^verbatim>\<open>waypoints[i2]\<close> are read after their comparison with the size.
\<close>

function path_commands ::
  "graph \<Rightarrow> nav_params \<Rightarrow> (destination \<Rightarrow> user_call list) \<Rightarrow> plan_waypoint list
   \<Rightarrow> size_t \<Rightarrow> size_t \<Rightarrow> string \<Rightarrow> command list \<Rightarrow> fault + command list" where
  "path_commands g np nav wps i0 i1 initial_map queue =
     (if \<not> i1 < word_of_nat (length wps) then Inr queue
      else if length wps \<le> unat i0 then Inl (WaypointsOutOfBounds (unat i0))
      else
        case lanes_waypoints g (approach_lanes (wps ! unat i1))
               (case pw_graph_index (wps ! unat i0) of Some gi \<Rightarrow> [gi] | None \<Rightarrow> [], []) of
          Inl f \<Rightarrow> Inl f
        | Inr (cmd_wps, cmd_lanes) \<Rightarrow>
            (case command_map g (wps ! unat i1) initial_map of
               Inl f \<Rightarrow> Inl f
             | Inr map_name \<Rightarrow>
                 if skips_next np wps i1
                 then path_commands g np nav wps (i0 + 2) (i1 + 2) map_name
                        (queue @ [path_command np nav wps i1 cmd_wps cmd_lanes map_name])
                 else path_commands g np nav wps (i0 + 1) (i1 + 1) map_name
                        (queue @ [path_command np nav wps i1 cmd_wps cmd_lanes map_name])))"
  by pat_completeness auto
termination
proof -
  have succ: "unat (i + 1) = Suc (unat i)" if "i < n" for i n :: size_t
  proof -
    have "i + 1 \<noteq> 0"
    proof
      assume "i + 1 = 0"
      then have "i = - 1" by (simp add: eq_neg_iff_add_eq_0)
      with that show False by simp
    qed
    then show ?thesis by (simp add: unatSuc add.commute)
  qed
  have one: "unat n - unat (i + 1) < unat n - unat i" if "i < n" for i n :: size_t
    using that by (simp add: succ [OF that] word_less_nat_alt)
  have two: "unat n - unat (i + 2) < unat n - unat i"
    if a: "i < n" and b: "i + 1 < n" for i n :: size_t
  proof -
    have "unat (i + 1 + 1) = Suc (Suc (unat i))"
      using succ [OF b] succ [OF a] by simp
    moreover have "i + 1 + 1 = i + 2" by simp
    ultimately have "unat (i + 2) = Suc (Suc (unat i))" by simp
    with a show ?thesis by (simp add: word_less_nat_alt)
  qed
  show ?thesis
    by (relation "measure (\<lambda>(g, np, nav, wps, i0, i1, m, q).
           unat (word_of_nat (length wps) :: size_t) - unat i1)")
       (simp_all add: skips_next_def one two)
qed

text \<open>
  \<^verbatim>\<open>follow_new_path\<close>. \<open>next_arrival_estimator\<close> and \<open>path_finished_callback\<close> tell whether
  the two \<^verbatim>\<open>std::function\<close>s given are not null. The index arithmetic is that of
  \<^verbatim>\<open>std::size_t\<close>.
\<close>

definition follow_new_path ::
  "(destination \<Rightarrow> user_call list) \<Rightarrow> plan_waypoint list \<Rightarrow> bool \<Rightarrow> bool
   \<Rightarrow> system \<Rightarrow> fault + system" where
  "follow_new_path handle_nav_request wps next_arrival_estimator path_finished_callback s =
     (if \<not> context_alive s then Inr s
      else if wps = [] \<or> \<not> next_arrival_estimator \<or> \<not> path_finished_callback
      then Inr (s\<lparr>robot_ctx := log_error InvalidPathParameters (robot_ctx s)\<rparr>)
      else
        case planner (robot_ctx s) of
          None \<Rightarrow> Inr (s\<lparr>robot_ctx := log_error PlannerMissing (robot_ctx s)\<rparr>)
        | Some pl \<Rightarrow>
            (case initial_map_of (pc_graph pl) wps of
               Inl f \<Rightarrow> Inl f
             | Inr None \<Rightarrow>
                 Inr (s\<lparr>robot_ctx := log_error (NoInitialMap (length wps)) (robot_ctx s)\<rparr>)
             | Inr (Some initial_map) \<Rightarrow>
                 (case find_connection wps (location (robot_ctx s)) 0 (False, 0) of
                    (found_connection, i) \<Rightarrow>
                      if \<not> found_connection
                      then Inr (s\<lparr>robot_ctx := request_replan (robot_ctx s)\<rparr>)
                      else
                        let size = word_of_nat (length wps) :: size_t;
                            i0 = (if size - 1 \<le> word_of_nat i then size - 2 else word_of_nat i);
                            i1 = i0 + 1
                        in case path_commands (pc_graph pl) (fleet_nav_params s)
                                  handle_nav_request wps i0 i1 initial_map [] of
                             Inl f \<Rightarrow> Inl f
                           | Inr queue \<Rightarrow> Inr (start_progress queue s))))"

section \<open>A small fleet for the concrete runs\<close>

text \<open>
  Two waypoints on one map, one unit apart; lanes 0 and 2 lead from waypoint 0 to
  waypoint 1 and lane 1 leads back; lane 2 is closed.
\<close>

definition ex_graph :: graph where
  "ex_graph =
     \<lparr>g_waypoints = [\<lparr>get_location = (0, 0), get_map_name = ''L1''\<rparr>,
                     \<lparr>get_location = (1, 0), get_map_name = ''L1''\<rparr>],
      g_lanes = [\<lparr>entry_waypoint_index = 0, exit_waypoint_index = 1\<rparr>,
                 \<lparr>entry_waypoint_index = 1, exit_waypoint_index = 0\<rparr>,
                 \<lparr>entry_waypoint_index = 0, exit_waypoint_index = 1\<rparr>],
      lanes_from = (\<lambda>w. if w = 0 then [0, 2] else if w = 1 then [1] else []),
      lane_from = (\<lambda>a b. if a = 0 \<and> b = 1 then Some 2
                          else if a = 1 \<and> b = 0 then Some 1 else None)\<rparr>"

definition ex_planner :: planner_configuration where
  "ex_planner =
     \<lparr>pc_graph = ex_graph, lane_closures = {2},
      pc_vehicle_traits = \<lparr>linear_nominal_velocity = 1, rotational_nominal_velocity = 1\<rparr>\<rparr>"

definition ex_nav :: nav_params where
  "ex_nav =
     \<lparr>max_merge_waypoint_distance = 1 / 10, max_merge_lane_distance = 1,
      min_lane_length = 1 / 100000000, skip_rotation_commands = True\<rparr>"

definition ex_ctx :: robot_context where
  "ex_ctx =
     \<lparr>planner = Some ex_planner, location = [], itinerary = [], next_plan_id = 0,
      replan_requests = 0, arrival_estimates = [], logged = []\<rparr>"

text \<open>A whole-graph search that answers with waypoint 1, and an interpolation that
  puts the positions of the path one second apart.\<close>

definition ex_lib :: library where
  "ex_lib =
     \<lparr>compute_plan_starts = (\<lambda>g m loc now a b c. [Start now 1 (yaw_of loc) (xy loc) None]),
      interpolate_positions =
        (\<lambda>traits now path.
           zip path (map (\<lambda>k. now + int k * 1000000000) [0 ..< length path]))\<rparr>"

definition ex_system :: system where
  "ex_system =
     \<lparr>robot_ctx = ex_ctx, context_alive = True, fleet_nav_params = ex_nav, commands = [],
      stubborns = [], current_progress = None, next_tracker_id = 0, worker = [],
      callbacks = []\<rparr>"

definition ex_data :: data where
  "ex_data =
     \<lparr>waypoints = [0], lanes = [0], final_orientation = Some 0, schedule_override = None,
      d_nav_params = ex_nav, arrival_estimator = PathEstimator 1\<rparr>"

section \<open>Notions used in the statements\<close>


text \<open>The length of a lane of the graph.\<close>

definition lane_length :: "graph \<Rightarrow> nat \<Rightarrow> real" where
  "lane_length g lane_id =
     vnorm (vsub (get_location (g_waypoints g ! exit_waypoint_index (g_lanes g ! lane_id)))
                 (get_location (g_waypoints g ! entry_waypoint_index (g_lanes g ! lane_id))))"

text \<open>Every lane of the graph joins two of its waypoints.\<close>

definition lanes_connect :: "graph \<Rightarrow> bool" where
  "lanes_connect g =
     list_all (\<lambda>l. entry_waypoint_index l < num_waypoints g \<and>
                    exit_waypoint_index l < num_waypoints g) (g_lanes g)"









section \<open>Concrete states for the runs\<close>

text \<open>The command of \<open>ex_data\<close> after it has begun and finished.\<close>

definition ex_finished :: system where
  "ex_finished =
     (case run ex_lib [UserFinished 0, WorkerRuns 0]
             (start_progress [make_command ex_data (Some [])] ex_system) of
        Inr s \<Rightarrow> s
      | Inl f \<Rightarrow> ex_system)"

text \<open>The robot located on waypoint 0.\<close>

definition ex_located :: system where
  "ex_located = ex_system\<lparr>robot_ctx := set_location [Start 0 0 0 (0, 0) None] ex_ctx\<rparr>"


text \<open>A command whose lane hint is outside the graph, and one on the lane from
  waypoint 0 to waypoint 1 only.\<close>

definition ex_stale :: data where
  "ex_stale = ex_data\<lparr>lanes := [7]\<rparr>"


text \<open>A command whose waypoint hint is outside the graph, begun on the small fleet.\<close>

definition ex_stale_waypoint :: system where
  "ex_stale_waypoint =
     start_progress [make_command (ex_data\<lparr>waypoints := [9]\<rparr>) (Some [])] ex_system"

text \<open>An override along the lane from waypoint 0 to waypoint 1, one second long, and
  the command of \<open>ex_data\<close> holding it.\<close>

definition ex_override :: schedule_override where
  "ex_override =
     \<lparr>ov_route = (''L1'', [((0, 0, 0), 0), ((1, 0, 0), 1000000000)]), ov_plan_id = 3,
      ov_stubborn = 0\<rparr>"

definition ex_overridden :: data where
  "ex_overridden = ex_data\<lparr>schedule_override := Some ex_override\<rparr>"

text \<open>Two commands handed to a tracker on the small fleet, and the state after the
  lambda of \<^verbatim>\<open>finished()\<close> has run for the first of them.\<close>

definition ex_two :: system where
  "ex_two =
     start_progress [make_command ex_data (Some []), make_command ex_data (Some [])] ex_system"

definition ex_two_finished :: system where
  "ex_two_finished = (case finish_task 0 (Some 0) ex_two of Inr s \<Rightarrow> s | Inl f \<Rightarrow> ex_two)"

text \<open>The first of the two commands after a call of \<^verbatim>\<open>override_schedule\<close>, when the
  worker has taken the lambda off its queue.\<close>

definition ex_path :: "vec3 list" where
  "ex_path = [(0, 0, 0), (1, 0, 0)]"


text \<open>The two commands after the first has overridden the schedule and finished.\<close>

definition ex_override_finished :: system where
  "ex_override_finished =
     (case run ex_lib
             [UserOverrideSchedule 0 ''L1'' ex_path, WorkerRuns 7, UserFinished 0, WorkerRuns 8]
             ex_two of
        Inr s \<Rightarrow> s
      | Inl f \<Rightarrow> ex_two)"


section \<open>Properties\<close>

declare path_commands.simps [simp del]

lemmas ex_defs =
  ex_graph_def ex_planner_def ex_nav_def ex_ctx_def ex_lib_def
  ex_system_def ex_data_def

lemmas sys_defs =
  start_progress_def make_tracker_def tracker_next_def trigger_def make_command_def
  finished_def override_schedule_def handed_def worker_step_def exec_task_def
  finish_task_def call_finisher_def update_position_def update_position_task_def
  call_update_fn_def stop_def release_def override_task_def release_stubbornness_def
  request_replan_def log_error_def

subsection \<open>Position updates through the update handle\<close>

lemma ex_finished_cleared:
  "\<not> update_fn (commands ex_finished ! 0) \<and>
   callbacks ex_finished = [BeginCalled 0, FinisherCalled 0, PathFinished 0]"
  by (simp add: ex_finished_def ex_defs sys_defs Let_def)

text \<open>
  Claim C1. A location update delivered against an activity identifier whose update
  function has been cleared should be a no-op. In the code, the lambda of
  \<^verbatim>\<open>update_position\<close> calls the identifier's \<^verbatim>\<open>update_fn\<close> without testing it, so that
  for a cleared identifier it calls a null \<^verbatim>\<open>std::function\<close>: the update throws instead of
  leaving the state as it is.
\<close>

theorem update_position_cleared_throws:
  "\<not> update_fn (commands s ! c) \<Longrightarrow>
   update_position_task lib now map_name position (Some c) s = Inl BadFunctionCall"
  by (simp add: update_position_task_def call_update_fn_def)

theorem update_position_cleared_throws_witness:
  "\<not> update_fn (commands ex_finished ! 0) \<and>
   update_position_task ex_lib 1 ''L1'' (0, 0, 0) (Some 0) ex_finished = Inl BadFunctionCall"
  using update_position_cleared_throws [of ex_finished 0 ex_lib 1 "''L1''" "(0, 0, 0)"]
    ex_finished_cleared by simp

text \<open>The same as a run: the command begins, finishes, and the next position update
  names its identifier.\<close>

lemma finished_then_update_position_run:
  "run ex_lib
     [UserFinished 0, WorkerRuns 0, UserUpdatePosition ''L1'' (0, 0, 0) (Some 0), WorkerRuns 1]
     (start_progress [make_command ex_data (Some [])] ex_system) = Inl BadFunctionCall"
  by (simp add: ex_defs sys_defs Let_def)

text \<open>
  Claim C8. Every location update that resolves a start set should write it into the
  robot's location, also when no command activity is current. In the code, the lambda
  of \<^verbatim>\<open>update_position\<close> computes the starts for a null \<^verbatim>\<open>current_activity\<close> and drops them:
  with a planner available the state after the update is the state before it.
\<close>

theorem update_position_no_activity_discards:
  "planner (robot_ctx s) = Some pl \<Longrightarrow>
   update_position_task lib now map_name position None s = Inr s"
  by (simp add: update_position_task_def Let_def)

theorem update_position_no_activity_discards_witness:
  "planner (robot_ctx ex_system) = Some ex_planner \<and>
   compute_plan_starts ex_lib (pc_graph ex_planner) ''L1'' (1, 0, 0) 5
     (max_merge_waypoint_distance ex_nav) (max_merge_lane_distance ex_nav)
     (min_lane_length ex_nav) = [Start 5 1 0 (1, 0) None] \<and>
   update_position_task ex_lib 5 ''L1'' (1, 0, 0) None ex_system = Inr ex_system \<and>
   location (robot_ctx ex_system) = []"
  using update_position_no_activity_discards
          [of ex_system ex_planner ex_lib 5 "''L1''" "(1, 0, 0)"]
  by (simp add: ex_defs xy_def yaw_of_def)

subsection \<open>The decomposition of a path\<close>

lemma unat_max_size_t: "unat (- 1 :: size_t) = 18446744073709551615"
  by (simp add: unsigned_minus_1_eq_mask mask_eq_exp_minus_1)

text \<open>
  Claim C10. A \<^verbatim>\<open>follow_new_path\<close> call that passes validation should index the waypoint
  list within its bounds, also for a plan of exactly one waypoint. In the code, for one
  waypoint \<^verbatim>\<open>waypoints.size() - 2\<close> wraps around to the largest \<^verbatim>\<open>std::size_t\<close>, \<open>i1\<close> wraps
  to 0, the loop is entered and \<^verbatim>\<open>waypoints[i0]\<close> is read at index \<open>2^64 - 1\<close>. The
  premises are what validation asks of a plan of one waypoint.
\<close>

theorem follow_new_path_single_waypoint:
  assumes "context_alive s" and "planner (robot_ctx s) = Some pl"
    and "pw_graph_index wp = Some gi" and "gi < num_waypoints (pc_graph pl)"
    and "list_ex (\<lambda>l. gi = st_waypoint l) (location (robot_ctx s))"
  shows "follow_new_path nav [wp] True True s =
         Inl (WaypointsOutOfBounds 18446744073709551615)"
proof -
  have "path_commands (pc_graph pl) (fleet_nav_params s) nav [wp] (- 1) 0 m [] =
        Inl (WaypointsOutOfBounds 18446744073709551615)" for m
    by (subst path_commands.simps) (simp add: unat_max_size_t)
  with assms show ?thesis
    by (simp add: follow_new_path_def Let_def)
qed

theorem follow_new_path_single_waypoint_witness:
  "context_alive ex_located \<and> planner (robot_ctx ex_located) = Some ex_planner \<and>
   follow_new_path (\<lambda>d. [])
     [\<lparr>pw_position = (0, 0, 0), pw_graph_index = Some 0, approach_lanes = []\<rparr>]
     True True ex_located = Inl (WaypointsOutOfBounds 18446744073709551615)"
  using follow_new_path_single_waypoint [of ex_located ex_planner
      "\<lparr>pw_position = (0, 0, 0), pw_graph_index = Some 0, approach_lanes = []\<rparr>" 0
      "\<lambda>d. []"]
  by (simp add: ex_located_def ex_defs set_location_def Start_def num_waypoints_def)

subsection \<open>The loops of \<^verbatim>\<open>update_location\<close>\<close>

lemma scan_waypoints_range:
  "scan_waypoints g mx p wps acc = Inr r \<Longrightarrow> \<forall>wp\<in>set wps. wp < num_waypoints g"
  by (induction wps arbitrary: acc) (auto simp: Let_def split: if_splits)



lemma location_estimate_arrival [simp]:
  "location (estimate_arrival d pl loc now ctx) = location ctx"
  by (simp add: estimate_arrival_def call_arrival_estimator_def cumulative_delay_def Let_def
           split: arrival_estimator.splits)

lemma logged_estimate_arrival [simp]:
  "logged (estimate_arrival d pl loc now ctx) = logged ctx"
  by (simp add: estimate_arrival_def call_arrival_estimator_def cumulative_delay_def Let_def
           split: arrival_estimator.splits)



lemma leaving_starts_range:
  "leaving_starts g closures now yaw p wp ls acc = Inr starts \<Longrightarrow>
   \<forall>l\<in>set ls. l < num_lanes g"
  by (induction ls arbitrary: acc) (auto split: if_splits)





subsection \<open>Resolution of the start set\<close>




lemmas geo_defs =
  waypoint_distance_def lane_projection_def project_def vnorm_def vsub_def vdot_def
  vscale_def vdiv_def xy_def yaw_of_def num_waypoints_def num_lanes_def








subsection \<open>Hints outside the graph\<close>

lemma scan_waypoints_out_of_range:
  "\<exists>wp\<in>set wps. num_waypoints g \<le> wp \<Longrightarrow>
   \<exists>wp. wp \<in> set wps \<and> num_waypoints g \<le> wp \<and>
        scan_waypoints g mx p wps acc = Inl (Logged (WaypointOutsideGraph wp (num_waypoints g)))"
  by (induction wps arbitrary: acc) (auto simp: Let_def)

lemma lanes_connect_nth:
  "lanes_connect g \<Longrightarrow> l < num_lanes g \<Longrightarrow>
   entry_waypoint_index (g_lanes g ! l) < num_waypoints g \<and>
   exit_waypoint_index (g_lanes g ! l) < num_waypoints g"
  by (simp add: lanes_connect_def num_lanes_def list_all_length)

lemma scan_lanes_out_of_range:
  assumes "lanes_connect g"
  shows "\<exists>l\<in>set ls. num_lanes g \<le> l \<Longrightarrow>
   \<exists>l. l \<in> set ls \<and> num_lanes g \<le> l \<and>
       scan_lanes g closures mx p ls acc = Inl (Logged (LaneOutsideGraph l (num_lanes g)))"
proof (induction ls arbitrary: acc)
  case Nil
  then show ?case by simp
next
  case (Cons a ls)
  show ?case
  proof (cases "num_lanes g \<le> a")
    case True
    then show ?thesis by auto
  next
    case False
    with Cons.prems have rest: "\<exists>l\<in>set ls. num_lanes g \<le> l" by auto
    from False lanes_connect_nth [OF assms, of a]
    have ends: "\<not> num_waypoints g \<le> entry_waypoint_index (g_lanes g ! a)"
      "\<not> num_waypoints g \<le> exit_waypoint_index (g_lanes g ! a)" by auto
    have "\<exists>acc'. scan_lanes g closures mx p (a # ls) acc = scan_lanes g closures mx p ls acc'"
    proof (cases "a \<in> closures")
      case True
      with False show ?thesis by auto
    next
      case open_lane: False
      show ?thesis
      proof (cases "lane_projection g p a")
        case NaNProjection
        with False ends open_lane show ?thesis by (auto simp: Let_def)
      next
        case Outside
        with False ends open_lane show ?thesis by (auto simp: Let_def)
      next
        case (Inside proj d)
        with False ends open_lane show ?thesis by (simp add: Let_def) blast
      qed
    qed
    then obtain acc' where
      "scan_lanes g closures mx p (a # ls) acc = scan_lanes g closures mx p ls acc'" ..
    with Cons.IH [OF rest, of acc'] show ?thesis by auto
  qed
qed


text \<open>
  Claim C9, as amended. A location update for a live command with no schedule override
  and an available planner is dropped when a hinted waypoint index is outside the graph,
  and also when no hinted waypoint matches and a hinted lane index is outside the graph
  (the lanes of the graph joining waypoints of the graph): one error is logged, and the
  location, the itinerary, the arrival estimates, the replan requests and the worker's
  queue are what they were, so that nothing is written and nothing is retried.
\<close>

theorem out_of_range_hint_drops_update:
  assumes "update_fn (commands s ! c)" and "context_alive s"
    and "cmd_data (commands s ! c) = d" and "schedule_override d = None"
    and "planner (robot_ctx s) = Some pl"
    and "(\<exists>wp\<in>set (waypoints d). num_waypoints (pc_graph pl) \<le> wp) \<or>
         (lanes_connect (pc_graph pl) \<and>
          scan_waypoints (pc_graph pl) (max_merge_waypoint_distance (d_nav_params d)) (xy loc)
            (waypoints d) None = Inr None \<and>
          (\<exists>l\<in>set (lanes d). num_lanes (pc_graph pl) \<le> l))"
  shows "\<exists>s' m. call_update_fn lib now c map_name loc s = Inr s' \<and>
           s' = s\<lparr>robot_ctx := log_error m (robot_ctx s)\<rparr> \<and>
           ((\<exists>wp. wp \<in> set (waypoints d) \<and> num_waypoints (pc_graph pl) \<le> wp \<and>
                  m = WaypointOutsideGraph wp (num_waypoints (pc_graph pl))) \<or>
            (\<exists>l. l \<in> set (lanes d) \<and> num_lanes (pc_graph pl) \<le> l \<and>
                 m = LaneOutsideGraph l (num_lanes (pc_graph pl)))) \<and>
           location (robot_ctx s') = location (robot_ctx s) \<and>
           itinerary (robot_ctx s') = itinerary (robot_ctx s) \<and>
           arrival_estimates (robot_ctx s') = arrival_estimates (robot_ctx s) \<and>
           replan_requests (robot_ctx s') = replan_requests (robot_ctx s) \<and>
           logged (robot_ctx s') = logged (robot_ctx s) @ [m] \<and>
           worker s' = worker s \<and> commands s' = commands s"
proof -
  let ?g = "pc_graph pl"
  have "\<exists>m. update_location (compute_plan_starts lib) d map_name loc now (robot_ctx s)
               = Inr (log_error m (robot_ctx s)) \<and>
          ((\<exists>wp. wp \<in> set (waypoints d) \<and> num_waypoints ?g \<le> wp \<and>
                 m = WaypointOutsideGraph wp (num_waypoints ?g)) \<or>
           (\<exists>l. l \<in> set (lanes d) \<and> num_lanes ?g \<le> l \<and>
                m = LaneOutsideGraph l (num_lanes ?g)))"
    using assms(6)
  proof
    assume "\<exists>wp\<in>set (waypoints d). num_waypoints ?g \<le> wp"
    from scan_waypoints_out_of_range [OF this]
    obtain wp where wp: "wp \<in> set (waypoints d)" "num_waypoints ?g \<le> wp"
      and sw: "scan_waypoints ?g (max_merge_waypoint_distance (d_nav_params d)) (xy loc)
                 (waypoints d) None = Inl (Logged (WaypointOutsideGraph wp (num_waypoints ?g)))"
      by blast
    from assms(4,5) sw
    have "update_location (compute_plan_starts lib) d map_name loc now (robot_ctx s)
            = Inr (log_error (WaypointOutsideGraph wp (num_waypoints ?g)) (robot_ctx s))"
      by (simp add: update_location_def interrupted_def)
    with wp show ?thesis by blast
  next
    assume a: "lanes_connect ?g \<and>
          scan_waypoints ?g (max_merge_waypoint_distance (d_nav_params d)) (xy loc)
            (waypoints d) None = Inr None \<and>
          (\<exists>l\<in>set (lanes d). num_lanes ?g \<le> l)"
    from a have lc: "lanes_connect ?g" and ex: "\<exists>l\<in>set (lanes d). num_lanes ?g \<le> l"
      and sw: "scan_waypoints ?g (max_merge_waypoint_distance (d_nav_params d)) (xy loc)
            (waypoints d) None = Inr None" by blast+
    from scan_lanes_out_of_range [OF lc ex]
    obtain l where l: "l \<in> set (lanes d)" "num_lanes ?g \<le> l"
      and sl: "scan_lanes ?g (lane_closures pl) (max_merge_lane_distance (d_nav_params d))
                 (xy loc) (lanes d) None = Inl (Logged (LaneOutsideGraph l (num_lanes ?g)))"
      by blast
    from sl have "resolve_starts (compute_plan_starts lib) d pl map_name loc now None
        = Inl (Logged (LaneOutsideGraph l (num_lanes ?g)))"
      by (simp add: resolve_starts_def Let_def)
    with assms(4,5) sw
    have "update_location (compute_plan_starts lib) d map_name loc now (robot_ctx s)
            = Inr (log_error (LaneOutsideGraph l (num_lanes ?g)) (robot_ctx s))"
      by (simp add: update_location_def interrupted_def)
    with l show ?thesis by blast
  qed
  then obtain m where
    ul: "update_location (compute_plan_starts lib) d map_name loc now (robot_ctx s)
               = Inr (log_error m (robot_ctx s))" and
    m: "(\<exists>wp. wp \<in> set (waypoints d) \<and> num_waypoints ?g \<le> wp \<and>
                 m = WaypointOutsideGraph wp (num_waypoints ?g)) \<or>
           (\<exists>l. l \<in> set (lanes d) \<and> num_lanes ?g \<le> l \<and>
                m = LaneOutsideGraph l (num_lanes ?g))"
    by blast
  from assms(1-3) ul
  have "call_update_fn lib now c map_name loc s
          = Inr (s\<lparr>robot_ctx := log_error m (robot_ctx s)\<rparr>)"
    by (simp add: call_update_fn_def)
  with m show ?thesis
    by (intro exI [of _ "s\<lparr>robot_ctx := log_error m (robot_ctx s)\<rparr>"] exI [of _ m])
       (simp add: log_error_def)
qed

theorem out_of_range_hint_drops_update_witness:
  "update_fn (commands ex_stale_waypoint ! 0) \<and> context_alive ex_stale_waypoint \<and>
   waypoints (cmd_data (commands ex_stale_waypoint ! 0)) = [9] \<and>
   num_waypoints (pc_graph ex_planner) = 2 \<and>
   call_update_fn ex_lib 5 0 ''L1'' (0, 0, 0) ex_stale_waypoint
     = Inr (ex_stale_waypoint
              \<lparr>robot_ctx := log_error (WaypointOutsideGraph 9 2) (robot_ctx ex_stale_waypoint)\<rparr>)"
proof -
  have a: "update_fn (commands ex_stale_waypoint ! 0)"
    and b: "context_alive ex_stale_waypoint"
    and c: "cmd_data (commands ex_stale_waypoint ! 0) = ex_data\<lparr>waypoints := [9]\<rparr>"
    and e: "planner (robot_ctx ex_stale_waypoint) = Some ex_planner"
    by (simp_all add: ex_stale_waypoint_def ex_defs sys_defs Let_def)
  have d: "schedule_override (ex_data\<lparr>waypoints := [9]\<rparr>) = None"
    by (simp add: ex_defs)
  have n: "num_waypoints (pc_graph ex_planner) = 2" by (simp add: ex_defs num_waypoints_def)
  have f: "(\<exists>wp\<in>set (waypoints (ex_data\<lparr>waypoints := [9]\<rparr>)).
              num_waypoints (pc_graph ex_planner) \<le> wp) \<or>
         (lanes_connect (pc_graph ex_planner) \<and>
          scan_waypoints (pc_graph ex_planner)
            (max_merge_waypoint_distance (d_nav_params (ex_data\<lparr>waypoints := [9]\<rparr>)))
            (xy (0, 0, 0)) (waypoints (ex_data\<lparr>waypoints := [9]\<rparr>)) None = Inr None \<and>
          (\<exists>l\<in>set (lanes (ex_data\<lparr>waypoints := [9]\<rparr>)). num_lanes (pc_graph ex_planner) \<le> l))"
    by (simp add: n)
  from out_of_range_hint_drops_update [OF a b c d e f, of ex_lib 5 "''L1''"] n c
  have "call_update_fn ex_lib 5 0 ''L1'' (0, 0, 0) ex_stale_waypoint
     = Inr (ex_stale_waypoint
              \<lparr>robot_ctx := log_error (WaypointOutsideGraph 9 2) (robot_ctx ex_stale_waypoint)\<rparr>)"
    by (auto simp: ex_data_def ex_planner_def ex_graph_def num_lanes_def)
  with a b c n show ?thesis by simp
qed

text \<open>
  The claim as stated fails where the index is never looked at: here the lane hint 7 is
  outside the graph, the hinted waypoint matches, and the update writes the location
  and the arrival estimate and logs nothing.
\<close>

theorem stale_lane_hint_still_updates:
  "7 \<in> set (lanes ex_stale) \<and> num_lanes (pc_graph ex_planner) = 3 \<and>
   schedule_override ex_stale = None \<and> location ex_ctx = [] \<and>
   update_location (compute_plan_starts ex_lib) ex_stale ''L1'' (0, 0, 0) 5 ex_ctx
     = Inr (ex_ctx\<lparr>location := [Start 5 0 0 (0, 0) None, Start 5 1 0 (0, 0) (Some 0)],
                   arrival_estimates := [(1, 0)]\<rparr>)"
  by (simp add: update_location_def resolve_starts_def estimate_arrival_def
        call_arrival_estimator_def set_location_def from_seconds_def ex_stale_def
        ex_defs geo_defs Let_def)

subsection \<open>The loops of \<^verbatim>\<open>overridden_update\<close>\<close>
















lemma planner_cumulative_delay [simp]:
  "planner (cumulative_delay pid delay thresh ctx) = planner ctx"
  by (simp add: cumulative_delay_def)






text \<open>A position beyond the end of the only segment: the delay comes from the nearest
  sample, the last one.\<close>

lemma ex_override_nearest_sample:
  "update_location (compute_plan_starts ex_lib) ex_overridden ''L1'' (2, 0, 0) 2000000000
     ex_ctx =
     Inr (ex_ctx\<lparr>location := [Start 2000000000 1 0 (2, 0) None],
                  itinerary := [CumulativeDelay 3 1000000000 1000000000]\<rparr>)"
  by (simp add: update_location_def overridden_update_def override_delay_def
        ex_override_def ex_overridden_def ex_defs geo_defs Let_def
        set_location_def cumulative_delay_def delay_thresh_def)

text \<open>A trajectory that starts with two samples at one position: the segment of length
  zero is kept with a NaN distance and the delay is computed from NaN.\<close>

lemma zero_length_segment_kept:
  "override_delay (1 / 2, 0) now
     \<lparr>ov_route = (''L1'', [((0, 0, 0), 0), ((0, 0, 1), 5), ((1, 0, 1), 9)]), ov_plan_id = 3,
      ov_stubborn = 0\<rparr> ctx = Inl NaNToInteger"
  by (simp add: override_delay_def geo_defs Let_def)

subsection \<open>Finishing a command\<close>

lemma commands_user_calls [simp]: "commands (user_calls c calls s) = commands s"
  by (induction c calls s rule: user_calls.induct)
     (simp_all add: finished_def override_schedule_def Let_def)

lemma callbacks_user_calls [simp]: "callbacks (user_calls c calls s) = callbacks s"
  by (induction c calls s rule: user_calls.induct)
     (simp_all add: finished_def override_schedule_def Let_def)

lemma robot_ctx_user_calls [simp]: "robot_ctx (user_calls c calls s) = robot_ctx s"
  by (induction c calls s rule: user_calls.induct)
     (simp_all add: finished_def override_schedule_def Let_def)

lemma current_progress_user_calls [simp]:
  "current_progress (user_calls c calls s) = current_progress s"
  by (induction c calls s rule: user_calls.induct)
     (simp_all add: finished_def override_schedule_def Let_def)

lemma update_fn_set_finisher [simp]:
  "update_fn (xs[i := (xs ! i)\<lparr>cmd_finisher := f\<rparr>] ! c) = update_fn (xs ! c)"
proof (cases "i < length xs")
  case True
  then show ?thesis by (cases "c = i") simp_all
next
  case False
  then have "length xs \<le> i" by simp
  then have "xs[i := (xs ! i)\<lparr>cmd_finisher := f\<rparr>] = xs" by (rule list_update_beyond)
  then show ?thesis by simp
qed

lemma update_fn_tracker_next [simp]:
  "update_fn (commands (tracker_next tr s) ! c) = update_fn (commands s ! c)"
  by (simp add: tracker_next_def trigger_def Let_def split: option.splits)

lemma length_commands_tracker_next [simp]:
  "length (commands (tracker_next tr s)) = length (commands s)"
  by (auto simp: tracker_next_def trigger_def Let_def split: option.splits)

lemma update_fn_call_finisher [simp]:
  "update_fn (commands (call_finisher tid s) ! c) = update_fn (commands s ! c)"
  by (simp add: call_finisher_def split: option.splits)

lemma count_finisher_tracker_next [simp]:
  "count_list (callbacks (tracker_next tr s)) (FinisherCalled c)
   = count_list (callbacks s) (FinisherCalled c)"
  by (auto simp: tracker_next_def trigger_def Let_def split: option.splits)

lemma count_finisher_call_finisher [simp]:
  "count_list (callbacks (call_finisher tid s)) (FinisherCalled c)
   = count_list (callbacks s) (FinisherCalled c)"
  by (simp add: call_finisher_def split: option.splits)

lemma robot_ctx_call_finisher [simp]: "robot_ctx (call_finisher tid s) = robot_ctx s"
  by (auto simp: call_finisher_def tracker_next_def trigger_def Let_def split: option.splits)







text \<open>The same as a run: two calls of \<^verbatim>\<open>finished()\<close> on the first command, then the
  worker runs both lambdas; the second command begins once.\<close>

lemma finished_twice_run:
  "run ex_lib [UserFinished 0, UserFinished 0, WorkerRuns 1, WorkerRuns 2] ex_two
   = Inr ex_two_finished"
  by (simp add: ex_two_finished_def ex_two_def ex_defs sys_defs Let_def)

subsection \<open>Stubbornness\<close>


lemma length_release_stubbornness [simp]:
  "length (release_stubbornness d st) = length st"
  by (simp add: release_stubbornness_def split: option.splits)

lemma handle_held_release_stubbornness [simp]:
  "handle_held (release_stubbornness d st ! i) = handle_held (st ! i)"
  by (cases "i < length st")
     (auto simp: release_stubbornness_def nth_list_update split: option.splits)





lemma release_stubbornness_twice:
  "release_stubbornness d (release_stubbornness d st) = release_stubbornness d st"
  by (auto simp: release_stubbornness_def split: option.splits)








text \<open>The same as a run, from the call of \<^verbatim>\<open>override_schedule\<close> to the lambda of
  \<^verbatim>\<open>finished()\<close>: the handle is still held, the robot is not stubborn, one replan was
  requested, and the tracker was not advanced.\<close>

lemma override_then_finished_run:
  "run ex_lib [UserOverrideSchedule 0 ''L1'' ex_path, WorkerRuns 7, UserFinished 0, WorkerRuns 8]
     ex_two = Inr ex_override_finished \<and>
   handle_held (stubborns ex_override_finished ! 0) \<and> \<not> is_stubborn ex_override_finished \<and>
   replan_requests (robot_ctx ex_override_finished) = 1 \<and>
   worker ex_override_finished = [] \<and>
   callbacks ex_override_finished = [BeginCalled 0]"
  by (simp add: ex_override_finished_def ex_two_def ex_path_def is_stubborn_def ex_defs
        sys_defs Let_def)

subsection \<open>The progress tracker\<close>





























end
